theory Spec2Isabelle
  imports Complex_Main "HOL-Library.Monad_Syntax" "HOL-Library.State_Monad"
begin

section \<open>The DeepSeek-V3 decoder layer of MaxText/layers/deepseek.py\<close>

text \<open>
  The file defines one flax module, \<open>DeepSeekDecoderLayer\<close>, whose \<open>__call__\<close> wires
  collaborators of other modules together: \<open>nn.with_logical_constraint\<close>,
  \<open>checkpoint_name\<close>, \<open>RMSNorm\<close>, \<open>attentions.MLA\<close>, \<open>linears.MlpBlock\<close>,
  \<open>linears.MoeBlock\<close>, the array addition and the reductions of \<open>jax.numpy\<close>.
  None of them is defined in this file, so the model takes them as parameters (the record
  \<open>framework\<close>) and the theorems hold for every choice of them. \<open>__call__\<close> itself
  raises nothing and has no loop; a collaborator that raises is outside this model, which
  describes the calls that return.

  An activation array is modelled by the list of its entries in row-major order; the entry
  type \<open>'e\<close> is left open (the arithmetic on the entries belongs to the collaborators). Every other object
  that the layer only passes on (the mesh, the quantization objects, the initializer, the
  position and segment-id arrays, the auxiliary output of the mixture block) has the open
  type \<open>'o\<close>.
\<close>

subsection \<open>Data\<close>

type_synonym 'e array = "'e list"

text \<open>The fields of \<open>models.Config\<close> that \<open>__call__\<close> reads. Python integers are
  unbounded; the two floating-point settings are only passed on.\<close>

record Config =
  dtype :: string
  weight_dtype :: string
  normalization_layer_epsilon :: real
  num_query_heads :: int
  q_lora_rank :: int
  kv_lora_rank :: int
  qk_nope_head_dim :: int
  qk_rope_head_dim :: int
  head_dim :: int
  max_target_length :: int
  max_prefill_predict_length :: int
  attention :: string
  mlp_dim :: int
  num_experts_per_tok :: int
  num_shared_experts :: int
  mlp_activations :: "string list"
  dropout_rate :: real
  num_experts :: int
  record_internal_nn_metrics :: bool
  scan_layers :: bool

text \<open>The dataclass fields of the module itself.\<close>

record 'o DeepSeekDecoderLayer =
  config :: Config
  mesh :: 'o
  quant :: "'o option"

text \<open>The keyword arguments with which the four submodules are constructed.\<close>

record RMSNorm_args =
  rms_dtype :: string
  rms_weight_dtype :: string
  rms_name :: string
  rms_kernel_axes :: "string list"
  rms_epsilon :: real

record 'o MLA_args =
  mla_config :: Config
  mla_num_heads :: int
  mla_q_lora_rank :: int
  mla_kv_lora_rank :: int
  mla_qk_nope_head_dim :: int
  mla_qk_rope_head_dim :: int
  mla_v_head_dim :: int
  mla_max_target_length :: int
  mla_max_prefill_predict_length :: int
  mla_attention_kernel :: string
  mla_mesh :: 'o
  mla_dtype :: string
  mla_weight_dtype :: string
  mla_name :: string
  mla_quant :: "'o option"
  mla_kv_quant :: 'o

record 'o MlpBlock_args =
  mlp_intermediate_dim :: int
  mlp_activations_arg :: "string list"
  mlp_intermediate_dropout_rate :: real
  mlp_dtype :: string
  mlp_weight_dtype :: string
  mlp_name :: string
  mlp_config :: Config
  mlp_quant :: "'o option"

record 'o MoeBlock_args =
  moe_config :: Config
  moe_num_experts :: int
  moe_num_experts_per_tok :: int
  moe_mesh :: 'o
  moe_kernel_init :: 'o
  moe_kernel_axes :: "string option list"
  moe_dtype :: string
  moe_weight_dtype :: string
  moe_quant :: "'o option"

text \<open>A floating-point scalar as far as the layer needs it: the metrics it records. A
  finite value is the real number that the float stands for (the two zeros are not told
  apart).\<close>

datatype fval = Finite real | PosInf | NegInf | NaN

text \<open>The collaborators. \<open>eq_zero\<close> is the comparison \<open>x == 0\<close> on one entry.
  \<open>divide_beyond_int32\<close> stands for what the library's division does with an integer
  operand that does not fit 32 bits, which is left open.\<close>

record ('e, 'o) framework =
  nn_with_logical_constraint :: "'e array \<Rightarrow> string list \<Rightarrow> 'e array"
  jax_checkpoint_name :: "'e array \<Rightarrow> string \<Rightarrow> 'e array"
  RMSNorm :: "RMSNorm_args \<Rightarrow> 'e array \<Rightarrow> 'e array"
  Attention :: "'o MLA_args \<Rightarrow> 'e array \<Rightarrow> 'e array \<Rightarrow> 'o \<Rightarrow> 'o \<Rightarrow> bool \<Rightarrow> string \<Rightarrow> 'e array"
  MlpBlock :: "'o MlpBlock_args \<Rightarrow> 'e array \<Rightarrow> bool \<Rightarrow> 'e array"
  MoeBlock :: "'o MoeBlock_args \<Rightarrow> 'e array \<Rightarrow> 'e array \<times> 'o"
  configure_kv_quant :: "Config \<Rightarrow> 'o"
  nd_dense_init :: "real \<Rightarrow> string \<Rightarrow> string \<Rightarrow> 'o"
  jnp_add :: "'e array \<Rightarrow> 'e array \<Rightarrow> 'e array"
  jnp_mean :: "'e array \<Rightarrow> fval"
  jnp_std :: "'e array \<Rightarrow> fval"
  eq_zero :: "'e \<Rightarrow> bool"
  divide_beyond_int32 :: "int \<Rightarrow> int \<Rightarrow> fval"

text \<open>What \<open>__call__\<close> does besides returning a value: the calls it makes, in order.
  \<open>CallMLA\<close> lists the arguments as the callee receives them: the two array inputs,
  the positions, then \<open>decoder_segment_ids\<close>, \<open>deterministic\<close> and \<open>model_mode\<close>.\<close>

datatype ('e, 'o) event =
  Constrain "'e array" "string list"
| Checkpoint "'e array" string
| CallRMSNorm RMSNorm_args "'e array"
| CallMLA "'o MLA_args" "'e array" "'e array" 'o 'o bool string
| CallMlpBlock "'o MlpBlock_args" "'e array" bool
| CallMoeBlock "'o MoeBlock_args" "'e array"
| Add "'e array" "'e array"
| Sow string string fval

text \<open>The two forms of the returned value: the pair \<open>(layer_output, None)\<close> and
  \<open>layer_output\<close> alone.\<close>

datatype 'e layer_return = WithNone "'e array" | Alone "'e array"

fun returned_array :: "'e layer_return \<Rightarrow> 'e array" where
  "returned_array (WithNone x) = x"
| "returned_array (Alone x) = x"

subsection \<open>The calls, each recorded in the trace\<close>

type_synonym ('e, 'o, 'a) traced = "(('e, 'o) event list, 'a) state"

definition emit :: "('e, 'o) event \<Rightarrow> ('e, 'o, unit) traced" where
  "emit ev = State_Monad.update (\<lambda>tr. tr @ [ev])"

definition with_logical_constraint ::
  "('e, 'o) framework \<Rightarrow> 'e array \<Rightarrow> string list \<Rightarrow> ('e, 'o, 'e array) traced" where
  "with_logical_constraint fw x axes =
     do { emit (Constrain x axes); State_Monad.return (nn_with_logical_constraint fw x axes) }"

definition checkpoint_name ::
  "('e, 'o) framework \<Rightarrow> 'e array \<Rightarrow> string \<Rightarrow> ('e, 'o, 'e array) traced" where
  "checkpoint_name fw x name =
     do { emit (Checkpoint x name); State_Monad.return (jax_checkpoint_name fw x name) }"

definition call_RMSNorm ::
  "('e, 'o) framework \<Rightarrow> RMSNorm_args \<Rightarrow> 'e array \<Rightarrow> ('e, 'o, 'e array) traced" where
  "call_RMSNorm fw args x =
     do { emit (CallRMSNorm args x); State_Monad.return (RMSNorm fw args x) }"

definition call_Attention ::
  "('e, 'o) framework \<Rightarrow> 'o MLA_args \<Rightarrow> 'e array \<Rightarrow> 'e array \<Rightarrow> 'o \<Rightarrow> 'o \<Rightarrow> bool \<Rightarrow> string
     \<Rightarrow> ('e, 'o, 'e array) traced" where
  "call_Attention fw args q kv positions segment_ids det mode =
     do { emit (CallMLA args q kv positions segment_ids det mode);
          State_Monad.return (Attention fw args q kv positions segment_ids det mode) }"

definition call_MlpBlock ::
  "('e, 'o) framework \<Rightarrow> 'o MlpBlock_args \<Rightarrow> 'e array \<Rightarrow> bool \<Rightarrow> ('e, 'o, 'e array) traced" where
  "call_MlpBlock fw args x det =
     do { emit (CallMlpBlock args x det); State_Monad.return (MlpBlock fw args x det) }"

definition call_MoeBlock ::
  "('e, 'o) framework \<Rightarrow> 'o MoeBlock_args \<Rightarrow> 'e array \<Rightarrow> ('e, 'o, 'e array \<times> 'o) traced" where
  "call_MoeBlock fw args x =
     do { emit (CallMoeBlock args x); State_Monad.return (MoeBlock fw args x) }"

definition add :: "('e, 'o) framework \<Rightarrow> 'e array \<Rightarrow> 'e array \<Rightarrow> ('e, 'o, 'e array) traced" where
  "add fw x y = do { emit (Add x y); State_Monad.return (jnp_add fw x y) }"

definition sow :: "string \<Rightarrow> string \<Rightarrow> fval \<Rightarrow> ('e, 'o, unit) traced" where
  "sow col name v = emit (Sow col name v)"

subsection \<open>The arithmetic of the zero-fraction metric\<close>

text \<open>\<open>layer_output == 0\<close> is the array of the entrywise comparisons. \<open>jnp.sum\<close> of a
  boolean array counts its true entries in a 32-bit signed integer, which wraps.
  \<open>jnp.size\<close> is the number of entries, a Python integer.\<close>

definition jnp_eq_zero :: "('e, 'o) framework \<Rightarrow> 'e array \<Rightarrow> bool list" where
  "jnp_eq_zero fw x = map (eq_zero fw) x"

definition wrap_int32 :: "int \<Rightarrow> int" where
  "wrap_int32 i = (i + 2 ^ 31) mod 2 ^ 32 - 2 ^ 31"

definition jnp_sum :: "bool list \<Rightarrow> int" where
  "jnp_sum bs = wrap_int32 (int (length (filter id bs)))"

definition jnp_size :: "'e array \<Rightarrow> int" where
  "jnp_size x = int (length x)"

text \<open>The division of the 32-bit count by the Python integer is a division of
  single-precision floats: both operands are converted to \<open>float32\<close> and the quotient
  is rounded to \<open>float32\<close>, each time to the nearest value with a significand of 24
  bits, a tie going to the even significand.

  \<open>round_half_even n d\<close> is the integer nearest to \<open>n / d\<close>. \<open>f32_of_nat n\<close> is the
  float nearest to the natural number \<open>n\<close>: \<open>excess_bits n\<close> is the number of bits by
  which \<open>n\<close> exceeds 24 bits. \<open>f32_quot a b\<close> is the float nearest to \<open>a / b\<close>,
  for \<open>b > 0\<close>: the quotient is scaled by a power of two into the range of a 24-bit
  significand (by at most \<open>2 ^ 149\<close>, where the subnormal numbers begin) and rounded
  there.\<close>

definition round_half_even :: "nat \<Rightarrow> nat \<Rightarrow> nat" where
  "round_half_even n d =
     (let q = n div d; r = n mod d
      in if 2 * r < d then q else if d < 2 * r then q + 1 else if even q then q else q + 1)"

fun excess_bits :: "nat \<Rightarrow> nat" where
  "excess_bits n = (if n < 2 ^ 24 then 0 else Suc (excess_bits (n div 2)))"

declare excess_bits.simps [simp del]

definition f32_of_nat :: "nat \<Rightarrow> nat" where
  "f32_of_nat n = (let k = excess_bits n in round_half_even n (2 ^ k) * 2 ^ k)"

definition f32_of_int :: "int \<Rightarrow> int" where
  "f32_of_int i = (if i < 0 then - int (f32_of_nat (nat (- i))) else int (f32_of_nat (nat i)))"

function scale_up :: "nat \<Rightarrow> nat \<Rightarrow> nat \<Rightarrow> nat" where
  "scale_up a b s = (if 2 ^ 23 * b \<le> a * 2 ^ s \<or> 149 \<le> s then s else scale_up a b (Suc s))"
  by pat_completeness auto
termination
  by (relation "measure (\<lambda>(a, b, s). 149 - s)") auto

declare scale_up.simps [simp del]

definition f32_quot :: "nat \<Rightarrow> nat \<Rightarrow> real" where
  "f32_quot a b =
     (if a = 0 then 0
      else if 2 ^ 24 * b \<le> a then
        (let k = excess_bits (a div b) in real (round_half_even a (b * 2 ^ k) * 2 ^ k))
      else
        (let s = scale_up a b 0 in real (round_half_even (a * 2 ^ s) b) / 2 ^ s))"

text \<open>The division of two floats whose values are integers. A zero divisor raises
  nothing: it gives \<open>nan\<close> or an infinity. A quotient beyond the largest float is an
  infinity.\<close>

definition f32_div :: "int \<Rightarrow> int \<Rightarrow> fval" where
  "f32_div a b =
     (if b = 0 then (if a = 0 then NaN else if 0 < a then PosInf else NegInf)
      else
        (let q = f32_quot (nat \<bar>a\<bar>) (nat \<bar>b\<bar>)
         in if (a < 0) = (b < 0) then (if 2 ^ 128 \<le> q then PosInf else Finite q)
            else (if 2 ^ 128 \<le> q then NegInf else Finite (- q))))"

definition in_int32 :: "int \<Rightarrow> bool" where
  "in_int32 i \<longleftrightarrow> - (2 ^ 31) \<le> i \<and> i < 2 ^ 31"

definition true_divide :: "('e, 'o) framework \<Rightarrow> int \<Rightarrow> int \<Rightarrow> fval" where
  "true_divide fw a b =
     (if in_int32 a \<and> in_int32 b then f32_div (f32_of_int a) (f32_of_int b)
      else divide_beyond_int32 fw a b)"

subsection \<open>\<open>DeepSeekDecoderLayer.__call__\<close>\<close>

definition activation_axes :: "string list" where
  "activation_axes = [''activation_batch'', ''activation_norm_length'', ''activation_embed'']"

definition DeepSeekDecoderLayer_call ::
  "('e, 'o) framework \<Rightarrow> 'o DeepSeekDecoderLayer \<Rightarrow> 'e array \<Rightarrow> 'o \<Rightarrow> 'o \<Rightarrow> bool \<Rightarrow> string \<Rightarrow> bool
     \<Rightarrow> ('e, 'o, 'e layer_return) traced" where
  "DeepSeekDecoderLayer_call fw self inputs decoder_segment_ids decoder_positions
       deterministic model_mode dense_layer =
   (let cfg = config self; mesh = mesh self in do {
      inputs \<leftarrow> with_logical_constraint fw inputs
        [''activation_batch'', ''activation_norm_length'', ''activation_embed''];
      inputs \<leftarrow> checkpoint_name fw inputs ''decoder_layer_input'';
      lnx \<leftarrow> call_RMSNorm fw
        \<lparr>rms_dtype = dtype cfg,
         rms_weight_dtype = weight_dtype cfg,
         rms_name = ''pre_self_attention_layer_norm'',
         rms_kernel_axes = [''norm''],
         rms_epsilon = normalization_layer_epsilon cfg\<rparr> inputs;
      lnx \<leftarrow> with_logical_constraint fw lnx
        [''activation_batch'', ''activation_norm_length'', ''activation_embed''];
      attention_lnx \<leftarrow> call_Attention fw
        \<lparr>mla_config = cfg,
         mla_num_heads = num_query_heads cfg,
         mla_q_lora_rank = q_lora_rank cfg,
         mla_kv_lora_rank = kv_lora_rank cfg,
         mla_qk_nope_head_dim = qk_nope_head_dim cfg,
         mla_qk_rope_head_dim = qk_rope_head_dim cfg,
         mla_v_head_dim = head_dim cfg,
         mla_max_target_length = max_target_length cfg,
         mla_max_prefill_predict_length = max_prefill_predict_length cfg,
         mla_attention_kernel = attention cfg,
         mla_mesh = mesh,
         mla_dtype = dtype cfg,
         mla_weight_dtype = weight_dtype cfg,
         mla_name = ''self_attention'',
         mla_quant = quant self,
         mla_kv_quant = configure_kv_quant fw cfg\<rparr>
        lnx lnx decoder_positions decoder_segment_ids deterministic model_mode;
      attention_lnx \<leftarrow> with_logical_constraint fw attention_lnx
        [''activation_batch'', ''activation_norm_length'', ''activation_embed''];
      intermediate_inputs \<leftarrow> add fw inputs attention_lnx;
      hidden_states \<leftarrow> call_RMSNorm fw
        \<lparr>rms_dtype = dtype cfg,
         rms_weight_dtype = weight_dtype cfg,
         rms_name = ''post_self_attention_layer_norm'',
         rms_kernel_axes = [''norm''],
         rms_epsilon = normalization_layer_epsilon cfg\<rparr> intermediate_inputs;
      hidden_states \<leftarrow> with_logical_constraint fw hidden_states
        [''activation_batch'', ''activation_norm_length'', ''activation_embed''];
      mlp_lnx \<leftarrow>
        (if dense_layer then do {
           mlp_lnx \<leftarrow> call_MlpBlock fw
             \<lparr>mlp_intermediate_dim = mlp_dim cfg * (num_experts_per_tok cfg + num_shared_experts cfg),
              mlp_activations_arg = mlp_activations cfg,
              mlp_intermediate_dropout_rate = dropout_rate cfg,
              mlp_dtype = dtype cfg,
              mlp_weight_dtype = weight_dtype cfg,
              mlp_name = ''mlp'',
              mlp_config = cfg,
              mlp_quant = quant self\<rparr> hidden_states deterministic;
           with_logical_constraint fw mlp_lnx
             [''activation_batch'', ''activation_norm_length'', ''activation_embed'']
         } else do {
           mlp_shared_lnx \<leftarrow> call_MlpBlock fw
             \<lparr>mlp_intermediate_dim = mlp_dim cfg * num_shared_experts cfg,
              mlp_activations_arg = mlp_activations cfg,
              mlp_intermediate_dropout_rate = dropout_rate cfg,
              mlp_dtype = dtype cfg,
              mlp_weight_dtype = weight_dtype cfg,
              mlp_name = ''mlp'',
              mlp_config = cfg,
              mlp_quant = quant self\<rparr> hidden_states deterministic;
           mlp_shared_lnx \<leftarrow> with_logical_constraint fw mlp_shared_lnx
             [''activation_batch'', ''activation_norm_length'', ''activation_embed''];
           routed \<leftarrow> call_MoeBlock fw
             \<lparr>moe_config = cfg,
              moe_num_experts = num_experts cfg,
              moe_num_experts_per_tok = num_experts_per_tok cfg,
              moe_mesh = mesh,
              moe_kernel_init = nd_dense_init fw 1 ''fan_in'' ''truncated_normal'',
              moe_kernel_axes = [Some ''embed'', None],
              moe_dtype = dtype cfg,
              moe_weight_dtype = weight_dtype cfg,
              moe_quant = quant self\<rparr> hidden_states;
           mlp_routed_lnx \<leftarrow> with_logical_constraint fw (fst routed)
             [''activation_batch'', ''activation_norm_length'', ''activation_embed''];
           mlp_lnx \<leftarrow> add fw mlp_shared_lnx mlp_routed_lnx;
           with_logical_constraint fw mlp_lnx
             [''activation_batch'', ''activation_norm_length'', ''activation_embed'']
         });
      layer_output \<leftarrow> add fw mlp_lnx intermediate_inputs;
      layer_output \<leftarrow> with_logical_constraint fw layer_output
        [''activation_batch'', ''activation_norm_length'', ''activation_embed''];
      _ \<leftarrow> (if record_internal_nn_metrics cfg then do {
             sow ''intermediates'' ''activation_mean'' (jnp_mean fw layer_output);
             sow ''intermediates'' ''activation_stdev'' (jnp_std fw layer_output);
             sow ''intermediates'' ''activation_fraction_zero''
               (true_divide fw (jnp_sum (jnp_eq_zero fw layer_output)) (jnp_size layer_output))
           } else State_Monad.return ());
      (if scan_layers cfg then State_Monad.return (WithNone layer_output)
       else State_Monad.return (Alone layer_output))
    })"

text \<open>One call of the layer, started with an empty trace: the returned value and the
  calls made.\<close>

definition run_layer ::
  "('e, 'o) framework \<Rightarrow> 'o DeepSeekDecoderLayer \<Rightarrow> 'e array \<Rightarrow> 'o \<Rightarrow> 'o \<Rightarrow> bool \<Rightarrow> string \<Rightarrow> bool
     \<Rightarrow> 'e layer_return \<times> ('e, 'o) event list" where
  "run_layer fw self inputs decoder_segment_ids decoder_positions deterministic model_mode
       dense_layer =
     run_state (DeepSeekDecoderLayer_call fw self inputs decoder_segment_ids decoder_positions
       deterministic model_mode dense_layer) []"


subsection \<open>The values of the local variables\<close>

text \<open>The constructor arguments of the four submodules, as functions of the layer's own
  fields, and the value of each binding of \<open>__call__\<close>, named after the source variable
  (\<open>_out\<close> is what a collaborator or an addition returns, before the sharding constraint
  is put on it). The theorems below relate the trace and the returned value of
  \<open>DeepSeekDecoderLayer_call\<close> to them.\<close>

definition pre_self_attention_layer_norm :: "Config \<Rightarrow> RMSNorm_args" where
  "pre_self_attention_layer_norm cfg =
     \<lparr>rms_dtype = dtype cfg, rms_weight_dtype = weight_dtype cfg,
      rms_name = ''pre_self_attention_layer_norm'', rms_kernel_axes = [''norm''],
      rms_epsilon = normalization_layer_epsilon cfg\<rparr>"

definition post_self_attention_layer_norm :: "Config \<Rightarrow> RMSNorm_args" where
  "post_self_attention_layer_norm cfg =
     \<lparr>rms_dtype = dtype cfg, rms_weight_dtype = weight_dtype cfg,
      rms_name = ''post_self_attention_layer_norm'', rms_kernel_axes = [''norm''],
      rms_epsilon = normalization_layer_epsilon cfg\<rparr>"

definition self_attention :: "('e, 'o) framework \<Rightarrow> 'o DeepSeekDecoderLayer \<Rightarrow> 'o MLA_args" where
  "self_attention fw self =
     \<lparr>mla_config = config self, mla_num_heads = num_query_heads (config self),
      mla_q_lora_rank = q_lora_rank (config self),
      mla_kv_lora_rank = kv_lora_rank (config self),
      mla_qk_nope_head_dim = qk_nope_head_dim (config self),
      mla_qk_rope_head_dim = qk_rope_head_dim (config self),
      mla_v_head_dim = head_dim (config self),
      mla_max_target_length = max_target_length (config self),
      mla_max_prefill_predict_length = max_prefill_predict_length (config self),
      mla_attention_kernel = attention (config self), mla_mesh = mesh self,
      mla_dtype = dtype (config self), mla_weight_dtype = weight_dtype (config self),
      mla_name = ''self_attention'', mla_quant = quant self,
      mla_kv_quant = configure_kv_quant fw (config self)\<rparr>"

definition mlp_with_dim :: "'o DeepSeekDecoderLayer \<Rightarrow> int \<Rightarrow> 'o MlpBlock_args" where
  "mlp_with_dim self d =
     \<lparr>mlp_intermediate_dim = d, mlp_activations_arg = mlp_activations (config self),
      mlp_intermediate_dropout_rate = dropout_rate (config self),
      mlp_dtype = dtype (config self), mlp_weight_dtype = weight_dtype (config self),
      mlp_name = ''mlp'', mlp_config = config self, mlp_quant = quant self\<rparr>"

definition dense_mlp :: "'o DeepSeekDecoderLayer \<Rightarrow> 'o MlpBlock_args" where
  "dense_mlp self =
     mlp_with_dim self
       (mlp_dim (config self) * (num_experts_per_tok (config self) + num_shared_experts (config self)))"

definition shared_mlp :: "'o DeepSeekDecoderLayer \<Rightarrow> 'o MlpBlock_args" where
  "shared_mlp self =
     mlp_with_dim self (mlp_dim (config self) * num_shared_experts (config self))"

definition routed_moe :: "('e, 'o) framework \<Rightarrow> 'o DeepSeekDecoderLayer \<Rightarrow> 'o MoeBlock_args" where
  "routed_moe fw self =
     \<lparr>moe_config = config self, moe_num_experts = num_experts (config self),
      moe_num_experts_per_tok = num_experts_per_tok (config self), moe_mesh = mesh self,
      moe_kernel_init = nd_dense_init fw 1 ''fan_in'' ''truncated_normal'',
      moe_kernel_axes = [Some ''embed'', None], moe_dtype = dtype (config self),
      moe_weight_dtype = weight_dtype (config self), moe_quant = quant self\<rparr>"

definition constrained :: "('e, 'o) framework \<Rightarrow> 'e array \<Rightarrow> 'e array" where
  "constrained fw x = nn_with_logical_constraint fw x activation_axes"

definition inputs_val :: "('e, 'o) framework \<Rightarrow> 'e array \<Rightarrow> 'e array" where
  "inputs_val fw inputs = jax_checkpoint_name fw (constrained fw inputs) ''decoder_layer_input''"

definition lnx_out :: "('e, 'o) framework \<Rightarrow> 'o DeepSeekDecoderLayer \<Rightarrow> 'e array \<Rightarrow> 'e array" where
  "lnx_out fw self inputs =
     RMSNorm fw (pre_self_attention_layer_norm (config self)) (inputs_val fw inputs)"

definition lnx_val :: "('e, 'o) framework \<Rightarrow> 'o DeepSeekDecoderLayer \<Rightarrow> 'e array \<Rightarrow> 'e array" where
  "lnx_val fw self inputs = constrained fw (lnx_out fw self inputs)"

definition attention_out ::
  "('e, 'o) framework \<Rightarrow> 'o DeepSeekDecoderLayer \<Rightarrow> 'e array \<Rightarrow> 'o \<Rightarrow> 'o \<Rightarrow> bool \<Rightarrow> string
     \<Rightarrow> 'e array" where
  "attention_out fw self inputs segment_ids positions det mode =
     Attention fw (self_attention fw self) (lnx_val fw self inputs) (lnx_val fw self inputs)
       positions segment_ids det mode"

definition attention_lnx_val ::
  "('e, 'o) framework \<Rightarrow> 'o DeepSeekDecoderLayer \<Rightarrow> 'e array \<Rightarrow> 'o \<Rightarrow> 'o \<Rightarrow> bool \<Rightarrow> string
     \<Rightarrow> 'e array" where
  "attention_lnx_val fw self inputs segment_ids positions det mode =
     constrained fw (attention_out fw self inputs segment_ids positions det mode)"

definition intermediate_inputs_val ::
  "('e, 'o) framework \<Rightarrow> 'o DeepSeekDecoderLayer \<Rightarrow> 'e array \<Rightarrow> 'o \<Rightarrow> 'o \<Rightarrow> bool \<Rightarrow> string
     \<Rightarrow> 'e array" where
  "intermediate_inputs_val fw self inputs segment_ids positions det mode =
     jnp_add fw (inputs_val fw inputs)
       (attention_lnx_val fw self inputs segment_ids positions det mode)"

definition hidden_states_out ::
  "('e, 'o) framework \<Rightarrow> 'o DeepSeekDecoderLayer \<Rightarrow> 'e array \<Rightarrow> 'o \<Rightarrow> 'o \<Rightarrow> bool \<Rightarrow> string
     \<Rightarrow> 'e array" where
  "hidden_states_out fw self inputs segment_ids positions det mode =
     RMSNorm fw (post_self_attention_layer_norm (config self))
       (intermediate_inputs_val fw self inputs segment_ids positions det mode)"

definition hidden_states_val ::
  "('e, 'o) framework \<Rightarrow> 'o DeepSeekDecoderLayer \<Rightarrow> 'e array \<Rightarrow> 'o \<Rightarrow> 'o \<Rightarrow> bool \<Rightarrow> string
     \<Rightarrow> 'e array" where
  "hidden_states_val fw self inputs segment_ids positions det mode =
     constrained fw (hidden_states_out fw self inputs segment_ids positions det mode)"

definition mlp_dense_out ::
  "('e, 'o) framework \<Rightarrow> 'o DeepSeekDecoderLayer \<Rightarrow> 'e array \<Rightarrow> 'o \<Rightarrow> 'o \<Rightarrow> bool \<Rightarrow> string
     \<Rightarrow> 'e array" where
  "mlp_dense_out fw self inputs segment_ids positions det mode =
     MlpBlock fw (dense_mlp self)
       (hidden_states_val fw self inputs segment_ids positions det mode) det"

definition mlp_shared_out ::
  "('e, 'o) framework \<Rightarrow> 'o DeepSeekDecoderLayer \<Rightarrow> 'e array \<Rightarrow> 'o \<Rightarrow> 'o \<Rightarrow> bool \<Rightarrow> string
     \<Rightarrow> 'e array" where
  "mlp_shared_out fw self inputs segment_ids positions det mode =
     MlpBlock fw (shared_mlp self)
       (hidden_states_val fw self inputs segment_ids positions det mode) det"

definition mlp_routed_out ::
  "('e, 'o) framework \<Rightarrow> 'o DeepSeekDecoderLayer \<Rightarrow> 'e array \<Rightarrow> 'o \<Rightarrow> 'o \<Rightarrow> bool \<Rightarrow> string
     \<Rightarrow> 'e array" where
  "mlp_routed_out fw self inputs segment_ids positions det mode =
     fst (MoeBlock fw (routed_moe fw self)
       (hidden_states_val fw self inputs segment_ids positions det mode))"

definition mlp_sum_out ::
  "('e, 'o) framework \<Rightarrow> 'o DeepSeekDecoderLayer \<Rightarrow> 'e array \<Rightarrow> 'o \<Rightarrow> 'o \<Rightarrow> bool \<Rightarrow> string
     \<Rightarrow> 'e array" where
  "mlp_sum_out fw self inputs segment_ids positions det mode =
     jnp_add fw (constrained fw (mlp_shared_out fw self inputs segment_ids positions det mode))
       (constrained fw (mlp_routed_out fw self inputs segment_ids positions det mode))"

definition mlp_lnx_val ::
  "('e, 'o) framework \<Rightarrow> 'o DeepSeekDecoderLayer \<Rightarrow> 'e array \<Rightarrow> 'o \<Rightarrow> 'o \<Rightarrow> bool \<Rightarrow> string \<Rightarrow> bool
     \<Rightarrow> 'e array" where
  "mlp_lnx_val fw self inputs segment_ids positions det mode dense_layer =
     (if dense_layer
      then constrained fw (mlp_dense_out fw self inputs segment_ids positions det mode)
      else constrained fw (mlp_sum_out fw self inputs segment_ids positions det mode))"

definition layer_output_out ::
  "('e, 'o) framework \<Rightarrow> 'o DeepSeekDecoderLayer \<Rightarrow> 'e array \<Rightarrow> 'o \<Rightarrow> 'o \<Rightarrow> bool \<Rightarrow> string \<Rightarrow> bool
     \<Rightarrow> 'e array" where
  "layer_output_out fw self inputs segment_ids positions det mode dense_layer =
     jnp_add fw (mlp_lnx_val fw self inputs segment_ids positions det mode dense_layer)
       (intermediate_inputs_val fw self inputs segment_ids positions det mode)"

definition layer_output_val ::
  "('e, 'o) framework \<Rightarrow> 'o DeepSeekDecoderLayer \<Rightarrow> 'e array \<Rightarrow> 'o \<Rightarrow> 'o \<Rightarrow> bool \<Rightarrow> string \<Rightarrow> bool
     \<Rightarrow> 'e array" where
  "layer_output_val fw self inputs segment_ids positions det mode dense_layer =
     constrained fw (layer_output_out fw self inputs segment_ids positions det mode dense_layer)"

text \<open>The metrics recorded when \<open>cfg.record_internal_nn_metrics\<close> is set, and the calls
  of the feed-forward part, in the order of the source.\<close>

definition sown_metrics :: "('e, 'o) framework \<Rightarrow> 'e array \<Rightarrow> ('e, 'o) event list" where
  "sown_metrics fw x =
     [Sow ''intermediates'' ''activation_mean'' (jnp_mean fw x),
      Sow ''intermediates'' ''activation_stdev'' (jnp_std fw x),
      Sow ''intermediates'' ''activation_fraction_zero''
        (true_divide fw (jnp_sum (jnp_eq_zero fw x)) (jnp_size x))]"

definition attention_part ::
  "('e, 'o) framework \<Rightarrow> 'o DeepSeekDecoderLayer \<Rightarrow> 'e array \<Rightarrow> 'o \<Rightarrow> 'o \<Rightarrow> bool \<Rightarrow> string
     \<Rightarrow> ('e, 'o) event list" where
  "attention_part fw self inputs segment_ids positions det mode =
     [Constrain inputs activation_axes,
      Checkpoint (constrained fw inputs) ''decoder_layer_input'',
      CallRMSNorm (pre_self_attention_layer_norm (config self)) (inputs_val fw inputs),
      Constrain (lnx_out fw self inputs) activation_axes,
      CallMLA (self_attention fw self) (lnx_val fw self inputs) (lnx_val fw self inputs)
        positions segment_ids det mode,
      Constrain (attention_out fw self inputs segment_ids positions det mode) activation_axes,
      Add (inputs_val fw inputs) (attention_lnx_val fw self inputs segment_ids positions det mode),
      CallRMSNorm (post_self_attention_layer_norm (config self))
        (intermediate_inputs_val fw self inputs segment_ids positions det mode),
      Constrain (hidden_states_out fw self inputs segment_ids positions det mode)
        activation_axes]"

definition feed_forward_part ::
  "('e, 'o) framework \<Rightarrow> 'o DeepSeekDecoderLayer \<Rightarrow> 'e array \<Rightarrow> 'o \<Rightarrow> 'o \<Rightarrow> bool \<Rightarrow> string \<Rightarrow> bool
     \<Rightarrow> ('e, 'o) event list" where
  "feed_forward_part fw self inputs segment_ids positions det mode dense_layer =
     (if dense_layer then
        [CallMlpBlock (dense_mlp self)
           (hidden_states_val fw self inputs segment_ids positions det mode) det,
         Constrain (mlp_dense_out fw self inputs segment_ids positions det mode)
           activation_axes]
      else
        [CallMlpBlock (shared_mlp self)
           (hidden_states_val fw self inputs segment_ids positions det mode) det,
         Constrain (mlp_shared_out fw self inputs segment_ids positions det mode)
           activation_axes,
         CallMoeBlock (routed_moe fw self)
           (hidden_states_val fw self inputs segment_ids positions det mode),
         Constrain (mlp_routed_out fw self inputs segment_ids positions det mode)
           activation_axes,
         Add (constrained fw (mlp_shared_out fw self inputs segment_ids positions det mode))
           (constrained fw (mlp_routed_out fw self inputs segment_ids positions det mode)),
         Constrain (mlp_sum_out fw self inputs segment_ids positions det mode)
           activation_axes])"

definition output_part ::
  "('e, 'o) framework \<Rightarrow> 'o DeepSeekDecoderLayer \<Rightarrow> 'e array \<Rightarrow> 'o \<Rightarrow> 'o \<Rightarrow> bool \<Rightarrow> string \<Rightarrow> bool
     \<Rightarrow> ('e, 'o) event list" where
  "output_part fw self inputs segment_ids positions det mode dense_layer =
     [Add (mlp_lnx_val fw self inputs segment_ids positions det mode dense_layer)
        (intermediate_inputs_val fw self inputs segment_ids positions det mode),
      Constrain (layer_output_out fw self inputs segment_ids positions det mode dense_layer)
        activation_axes]"

subsection \<open>Reading a trace\<close>

text \<open>The calls of one kind in a trace, in order, each with its arguments.\<close>

fun constraints :: "('e, 'o) event list \<Rightarrow> ('e array \<times> string list) list" where
  "constraints [] = []"
| "constraints (Constrain x axes # tr) = (x, axes) # constraints tr"
| "constraints (_ # tr) = constraints tr"

fun rmsnorm_calls :: "('e, 'o) event list \<Rightarrow> (RMSNorm_args \<times> 'e array) list" where
  "rmsnorm_calls [] = []"
| "rmsnorm_calls (CallRMSNorm a x # tr) = (a, x) # rmsnorm_calls tr"
| "rmsnorm_calls (_ # tr) = rmsnorm_calls tr"

fun mla_calls ::
  "('e, 'o) event list \<Rightarrow> ('o MLA_args \<times> 'e array \<times> 'e array \<times> 'o \<times> 'o \<times> bool \<times> string) list" where
  "mla_calls [] = []"
| "mla_calls (CallMLA a q kv p s d m # tr) = (a, q, kv, p, s, d, m) # mla_calls tr"
| "mla_calls (_ # tr) = mla_calls tr"

fun mlp_calls :: "('e, 'o) event list \<Rightarrow> ('o MlpBlock_args \<times> 'e array \<times> bool) list" where
  "mlp_calls [] = []"
| "mlp_calls (CallMlpBlock a x d # tr) = (a, x, d) # mlp_calls tr"
| "mlp_calls (_ # tr) = mlp_calls tr"

fun moe_calls :: "('e, 'o) event list \<Rightarrow> ('o MoeBlock_args \<times> 'e array) list" where
  "moe_calls [] = []"
| "moe_calls (CallMoeBlock a x # tr) = (a, x) # moe_calls tr"
| "moe_calls (_ # tr) = moe_calls tr"

fun additions :: "('e, 'o) event list \<Rightarrow> ('e array \<times> 'e array) list" where
  "additions [] = []"
| "additions (Add x y # tr) = (x, y) # additions tr"
| "additions (_ # tr) = additions tr"

fun sown :: "('e, 'o) event list \<Rightarrow> (string \<times> string \<times> fval) list" where
  "sown [] = []"
| "sown (Sow c n v # tr) = (c, n, v) # sown tr"
| "sown (_ # tr) = sown tr"


text \<open>The calls that compute an array from arrays: the two normalizations, the attention,
  the feed-forward blocks and the additions. The sharding constraints, the checkpoint name
  and the recorded metrics are left out.\<close>

fun is_computation :: "('e, 'o) event \<Rightarrow> bool" where
  "is_computation (CallRMSNorm a x) = True"
| "is_computation (CallMLA a q kv p s d m) = True"
| "is_computation (CallMlpBlock a x d) = True"
| "is_computation (CallMoeBlock a x) = True"
| "is_computation (Add x y) = True"
| "is_computation (Constrain x axes) = False"
| "is_computation (Checkpoint x n) = False"
| "is_computation (Sow c n v) = False"

definition computations :: "('e, 'o) event list \<Rightarrow> ('e, 'o) event list" where
  "computations tr = filter is_computation tr"

text \<open>The arrays that a call of the trace returns: every activation that \<open>__call__\<close>
  obtains from a collaborator or from an addition. What a sharding constraint returns is
  not listed: it is the array it was given, constrained.\<close>

fun produced :: "('e, 'o) framework \<Rightarrow> ('e, 'o) event list \<Rightarrow> 'e array list" where
  "produced fw [] = []"
| "produced fw (CallRMSNorm a x # tr) = RMSNorm fw a x # produced fw tr"
| "produced fw (CallMLA a q kv p s d m # tr) = Attention fw a q kv p s d m # produced fw tr"
| "produced fw (CallMlpBlock a x d # tr) = MlpBlock fw a x d # produced fw tr"
| "produced fw (CallMoeBlock a x # tr) = fst (MoeBlock fw a x) # produced fw tr"
| "produced fw (Add x y # tr) = jnp_add fw x y # produced fw tr"
| "produced fw (_ # tr) = produced fw tr"

text \<open>Whether the returned value is the pair.\<close>

fun is_pair :: "'e layer_return \<Rightarrow> bool" where
  "is_pair (WithNone x) = True"
| "is_pair (Alone x) = False"

text \<open>Two layers on which the collaborators that receive the configuration behave alike.\<close>

definition collaborators_agree ::
  "('e, 'o) framework \<Rightarrow> 'o DeepSeekDecoderLayer \<Rightarrow> 'o DeepSeekDecoderLayer \<Rightarrow> bool" where
  "collaborators_agree fw self self' \<longleftrightarrow>
     Attention fw (self_attention fw self') = Attention fw (self_attention fw self) \<and>
     MlpBlock fw (dense_mlp self') = MlpBlock fw (dense_mlp self) \<and>
     MlpBlock fw (shared_mlp self') = MlpBlock fw (shared_mlp self) \<and>
     MoeBlock fw (routed_moe fw self') = MoeBlock fw (routed_moe fw self)"

subsection \<open>A small instance\<close>

text \<open>A configuration with the published DeepSeek-V3 sizes and stand-ins for the
  collaborators on integer entries, on which the theorems are exercised. The sharding
  constraint and the checkpoint name return their argument.\<close>

definition example_config :: Config where
  "example_config =
     \<lparr>dtype = ''bfloat16'', weight_dtype = ''float32'',
      normalization_layer_epsilon = 1 / 1000000, num_query_heads = 128, q_lora_rank = 1536,
      kv_lora_rank = 512, qk_nope_head_dim = 128, qk_rope_head_dim = 64, head_dim = 128,
      max_target_length = 2048, max_prefill_predict_length = 64, attention = ''dot_product'',
      mlp_dim = 2048, num_experts_per_tok = 8, num_shared_experts = 1,
      mlp_activations = [''silu'', ''linear''], dropout_rate = 0, num_experts = 256,
      record_internal_nn_metrics = True, scan_layers = False\<rparr>"

definition example_layer :: "nat DeepSeekDecoderLayer" where
  "example_layer = \<lparr>config = example_config, mesh = 0, quant = None\<rparr>"

definition example_framework :: "(int, nat) framework" where
  "example_framework =
     \<lparr>nn_with_logical_constraint = (\<lambda>x axes. x),
      jax_checkpoint_name = (\<lambda>x name. x),
      RMSNorm = (\<lambda>a x. map (\<lambda>v. 2 * v) x),
      Attention = (\<lambda>a q kv p s d m. map (\<lambda>v. v + 1) q),
      MlpBlock = (\<lambda>a x d. map (\<lambda>v. 4 - v) x),
      MoeBlock = (\<lambda>a x. (map (\<lambda>v. - v) x, 0)),
      configure_kv_quant = (\<lambda>cfg. 0),
      nd_dense_init = (\<lambda>scale mode distribution. 0),
      jnp_add = (\<lambda>x y. map2 (+) x y),
      jnp_mean = (\<lambda>x. NaN),
      jnp_std = (\<lambda>x. NaN),
      eq_zero = (\<lambda>v. v = 0),
      divide_beyond_int32 = (\<lambda>a b. NaN)\<rparr>"

definition example_run :: "bool \<Rightarrow> int layer_return \<times> (int, nat) event list" where
  "example_run dense_layer =
     run_layer example_framework example_layer [1, 0] 0 0 True ''train'' dense_layer"

section \<open>The trace and the result of one call\<close>

lemma run_emit: "run_state (emit ev) tr = ((), tr @ [ev])"
  by (simp add: emit_def State_Monad.update_def State_Monad.bind_def State_Monad.get_def
      State_Monad.set_def)

lemma run_with_logical_constraint:
  "run_state (with_logical_constraint fw x a) tr =
     (nn_with_logical_constraint fw x a, tr @ [Constrain x a])"
  by (simp add: with_logical_constraint_def run_emit)

lemma run_checkpoint_name:
  "run_state (checkpoint_name fw x n) tr = (jax_checkpoint_name fw x n, tr @ [Checkpoint x n])"
  by (simp add: checkpoint_name_def run_emit)

lemma run_call_RMSNorm:
  "run_state (call_RMSNorm fw a x) tr = (RMSNorm fw a x, tr @ [CallRMSNorm a x])"
  by (simp add: call_RMSNorm_def run_emit)

lemma run_call_Attention:
  "run_state (call_Attention fw a q kv p s d m) tr =
     (Attention fw a q kv p s d m, tr @ [CallMLA a q kv p s d m])"
  by (simp add: call_Attention_def run_emit)

lemma run_call_MlpBlock:
  "run_state (call_MlpBlock fw a x d) tr = (MlpBlock fw a x d, tr @ [CallMlpBlock a x d])"
  by (simp add: call_MlpBlock_def run_emit)

lemma run_call_MoeBlock:
  "run_state (call_MoeBlock fw a x) tr = (MoeBlock fw a x, tr @ [CallMoeBlock a x])"
  by (simp add: call_MoeBlock_def run_emit)

lemma run_add: "run_state (add fw x y) tr = (jnp_add fw x y, tr @ [Add x y])"
  by (simp add: add_def run_emit)

lemma run_sow: "run_state (sow c n v) tr = ((), tr @ [Sow c n v])"
  by (simp add: sow_def run_emit)

lemmas run_calls = run_with_logical_constraint run_checkpoint_name run_call_RMSNorm
  run_call_Attention run_call_MlpBlock run_call_MoeBlock run_add run_sow

lemmas local_values = pre_self_attention_layer_norm_def post_self_attention_layer_norm_def
  self_attention_def mlp_with_dim_def dense_mlp_def shared_mlp_def routed_moe_def
  constrained_def activation_axes_def inputs_val_def lnx_out_def lnx_val_def attention_out_def
  attention_lnx_val_def intermediate_inputs_val_def hidden_states_out_def hidden_states_val_def
  mlp_dense_out_def mlp_shared_out_def mlp_routed_out_def mlp_sum_out_def mlp_lnx_val_def
  layer_output_out_def layer_output_val_def

lemma run_layer_eq:
  "run_layer fw self inputs seg pos det mode dense =
     ((if scan_layers (config self) then WithNone else Alone)
        (layer_output_val fw self inputs seg pos det mode dense),
      attention_part fw self inputs seg pos det mode
      @ feed_forward_part fw self inputs seg pos det mode dense
      @ output_part fw self inputs seg pos det mode dense
      @ (if record_internal_nn_metrics (config self)
         then sown_metrics fw (layer_output_val fw self inputs seg pos det mode dense)
         else []))"
  unfolding run_layer_def DeepSeekDecoderLayer_call_def
  by (cases dense; cases "record_internal_nn_metrics (config self)";
      cases "scan_layers (config self)")
     (simp_all only: Let_def run_calls run_state_bind split_conv if_True if_False append_Nil
        append_Cons append_assoc State_Monad.run_state_return fst_conv snd_conv local_values
        attention_part_def feed_forward_part_def output_part_def sown_metrics_def)

lemmas trace_parts = attention_part_def feed_forward_part_def output_part_def sown_metrics_def

lemmas value_defs = constrained_def inputs_val_def lnx_out_def lnx_val_def attention_out_def
  attention_lnx_val_def intermediate_inputs_val_def hidden_states_out_def hidden_states_val_def
  mlp_dense_out_def mlp_shared_out_def mlp_routed_out_def mlp_sum_out_def mlp_lnx_val_def
  layer_output_out_def layer_output_val_def

text \<open>The layer output is the same on two layers whose submodules behave alike.\<close>

lemma layer_output_val_agree:
  assumes "collaborators_agree fw self self'"
    and "pre_self_attention_layer_norm (config self') = pre_self_attention_layer_norm (config self)"
    and "post_self_attention_layer_norm (config self') = post_self_attention_layer_norm (config self)"
  shows "layer_output_val fw self' inputs seg pos det mode dense =
         layer_output_val fw self inputs seg pos det mode dense"
  using assms by (simp add: collaborators_agree_def value_defs)

lemma example_agree: "collaborators_agree example_framework example_layer self'"
  by (simp add: collaborators_agree_def example_framework_def)

lemma map2_add_commute: "map2 (+) x y = map2 (+) y (x :: int list)"
proof (induction x arbitrary: y)
  case Nil
  then show ?case by simp
next
  case (Cons a x)
  then show ?case by (cases y) (simp_all add: add.commute)
qed

section \<open>Single-precision rounding\<close>

text \<open>Facts about the rounding of the division, used for the zero-fraction metric.\<close>

lemma excess_bits_small: "n < 2 ^ 24 \<Longrightarrow> excess_bits n = 0"
  by (subst excess_bits.simps) simp

lemma excess_bits_large: "\<not> n < 2 ^ 24 \<Longrightarrow> excess_bits n = Suc (excess_bits (n div 2))"
  by (subst excess_bits.simps) simp

lemma round_half_even_one: "round_half_even n (Suc 0) = n"
  by (simp add: round_half_even_def)

lemma f32_of_nat_small: "n < 2 ^ 24 \<Longrightarrow> f32_of_nat n = n"
  by (simp add: f32_of_nat_def excess_bits_small round_half_even_one)

lemma round_half_even_cases:
  "round_half_even n d = n div d \<or> round_half_even n d = Suc (n div d)"
  by (simp add: round_half_even_def Let_def)

lemma round_half_even_exact: "n mod d = 0 \<Longrightarrow> 0 < d \<Longrightarrow> round_half_even n d = n div d"
  by (simp add: round_half_even_def Let_def)

lemma round_half_even_le:
  assumes "0 < d" and "n \<le> c * d"
  shows "round_half_even n d \<le> c"
proof (cases "n = c * d")
  case True
  then show ?thesis using assms by (simp add: round_half_even_exact)
next
  case False
  with assms have "n < c * d" by simp
  then have "n div d < c" using assms(1) by (simp add: less_mult_imp_div_less)
  then show ?thesis using round_half_even_cases [of n d] by auto
qed

lemma round_half_even_ge:
  assumes "0 < d" and "c * d \<le> n"
  shows "c \<le> round_half_even n d"
proof -
  have "c \<le> n div d" using assms by (simp add: less_eq_div_iff_mult_less_eq)
  then show ?thesis using round_half_even_cases [of n d] by auto
qed

lemma round_half_even_mono:
  assumes "0 < d" and "m \<le> n"
  shows "round_half_even m d \<le> round_half_even n d"
proof (cases "m div d = n div d")
  case True
  have "m mod d \<le> n mod d"
    using assms True by (metis add_le_cancel_left div_mult_mod_eq)
  then show ?thesis
    using True by (auto simp add: round_half_even_def Let_def)
next
  case False
  have "m div d \<le> n div d" using assms by (simp add: div_le_mono)
  with False have "Suc (m div d) \<le> n div d" by simp
  then show ?thesis
    using round_half_even_cases [of m d] round_half_even_cases [of n d] by auto
qed



lemma excess_bits_upper: "n < 2 ^ (24 + excess_bits n)"
proof (induction n rule: excess_bits.induct)
  case (1 n)
  show ?case
  proof (cases "n < 2 ^ 24")
    case True
    then show ?thesis by (simp add: excess_bits_small)
  next
    case False
    then have "n div 2 < 2 ^ (24 + excess_bits (n div 2))" using 1 by simp
    then have "n < 2 * 2 ^ (24 + excess_bits (n div 2))" by linarith
    moreover have "24 + excess_bits n = Suc (24 + excess_bits (n div 2))"
      using False by (simp add: excess_bits_large)
    ultimately show ?thesis by (simp only: power_Suc)
  qed
qed

lemma excess_bits_lower: "0 < excess_bits n \<Longrightarrow> 2 ^ (23 + excess_bits n) \<le> n"
proof (induction n rule: excess_bits.induct)
  case (1 n)
  from 1(2) have large: "\<not> n < 2 ^ 24" by (auto simp add: excess_bits_small)
  show ?case
  proof (cases "n div 2 < 2 ^ 24")
    case True
    then have "excess_bits n = 1" using large by (simp add: excess_bits_large excess_bits_small)
    then show ?thesis using large by simp
  next
    case False
    then have "0 < excess_bits (n div 2)" by (simp add: excess_bits_large)
    then have "2 ^ (23 + excess_bits (n div 2)) \<le> n div 2" using 1(1) large by simp
    then have "2 * 2 ^ (23 + excess_bits (n div 2)) \<le> n" by linarith
    moreover have "23 + excess_bits n = Suc (23 + excess_bits (n div 2))"
      using large by (simp add: excess_bits_large)
    ultimately show ?thesis by (simp only: power_Suc)
  qed
qed

lemma excess_bits_mono: "m \<le> n \<Longrightarrow> excess_bits m \<le> excess_bits n"
proof (induction n arbitrary: m rule: excess_bits.induct)
  case (1 n)
  show ?case
  proof (cases "m < 2 ^ 24")
    case True
    then show ?thesis by (simp add: excess_bits_small)
  next
    case False
    with 1(2) have large: "\<not> n < 2 ^ 24" by simp
    have "m div 2 \<le> n div 2" using 1(2) by (simp add: div_le_mono)
    then have "excess_bits (m div 2) \<le> excess_bits (n div 2)" using 1(1) large by simp
    then show ?thesis using False large by (simp add: excess_bits_large)
  qed
qed

lemma f32_of_nat_upper: "f32_of_nat n \<le> 2 ^ (24 + excess_bits n)"
proof -
  have "n \<le> 2 ^ 24 * 2 ^ excess_bits n"
    using excess_bits_upper [of n] by (simp add: power_add)
  then have "round_half_even n (2 ^ excess_bits n) \<le> 2 ^ 24"
    by (intro round_half_even_le) simp_all
  then have "round_half_even n (2 ^ excess_bits n) * 2 ^ excess_bits n \<le> 2 ^ 24 * 2 ^ excess_bits n"
    by (rule mult_le_mono1)
  then show ?thesis by (simp add: f32_of_nat_def Let_def power_add)
qed

lemma f32_of_nat_lower: "0 < excess_bits n \<Longrightarrow> 2 ^ (23 + excess_bits n) \<le> f32_of_nat n"
proof -
  assume "0 < excess_bits n"
  then have "2 ^ 23 * 2 ^ excess_bits n \<le> n"
    using excess_bits_lower [of n] by (simp add: power_add)
  then have "2 ^ 23 \<le> round_half_even n (2 ^ excess_bits n)"
    by (intro round_half_even_ge) simp_all
  then have "2 ^ 23 * 2 ^ excess_bits n \<le> round_half_even n (2 ^ excess_bits n) * 2 ^ excess_bits n"
    by (rule mult_le_mono1)
  then show ?thesis by (simp add: f32_of_nat_def Let_def power_add)
qed

lemma f32_of_nat_mono:
  assumes "m \<le> n"
  shows "f32_of_nat m \<le> f32_of_nat n"
proof (cases "excess_bits m = excess_bits n")
  case True
  have "round_half_even m (2 ^ excess_bits n) \<le> round_half_even n (2 ^ excess_bits n)"
    using assms by (intro round_half_even_mono) simp_all
  then show ?thesis by (simp add: f32_of_nat_def Let_def True)
next
  case False
  with excess_bits_mono [OF assms] have less: "excess_bits m < excess_bits n" by simp
  have "f32_of_nat m \<le> 2 ^ (24 + excess_bits m)" by (rule f32_of_nat_upper)
  also have "\<dots> \<le> (2::nat) ^ (23 + excess_bits n)"
    using less by (intro power_increasing) simp_all
  also have "\<dots> \<le> f32_of_nat n" using less by (intro f32_of_nat_lower) simp
  finally show ?thesis .
qed

lemma f32_of_nat_pos: "0 < n \<Longrightarrow> 0 < f32_of_nat n"
proof (cases "n < 2 ^ 24")
  case True
  assume "0 < n"
  then show ?thesis using True by (simp add: f32_of_nat_small)
next
  case False
  then have "0 < excess_bits n" by (simp add: excess_bits_large)
  from f32_of_nat_lower [OF this] show ?thesis
    by (metis gr0I not_numeral_le_zero power_not_zero zero_neq_numeral le_zero_eq)
qed


lemma scale_up_stop: "2 ^ 23 * b \<le> a * 2 ^ s \<or> 149 \<le> s \<Longrightarrow> scale_up a b s = s"
  by (subst scale_up.simps) simp

lemma scale_up_step:
  "\<not> (2 ^ 23 * b \<le> a * 2 ^ s \<or> 149 \<le> s) \<Longrightarrow> scale_up a b s = scale_up a b (Suc s)"
  by (subst scale_up.simps) simp

lemma scale_up_found:
  assumes "s0 \<le> s" and "s \<le> 149" and "2 ^ 23 * b \<le> a * 2 ^ s"
    and "s = 0 \<or> a * 2 ^ (s - 1) < 2 ^ 23 * b"
  shows "scale_up a b s0 = s"
  using assms(1)
proof (induction "s - s0" arbitrary: s0)
  case 0
  then have "s0 = s" by simp
  then show ?case using assms(3) by (simp add: scale_up_stop)
next
  case (Suc k)
  then have less: "s0 < s" by simp
  then have "s0 \<le> s - 1" by simp
  then have "a * 2 ^ s0 \<le> a * 2 ^ (s - 1)"
    by (intro mult_le_mono2 power_increasing) simp_all
  also have "\<dots> < 2 ^ 23 * b" using assms(4) less by auto
  finally have "\<not> (2 ^ 23 * b \<le> a * 2 ^ s0 \<or> 149 \<le> s0)"
    using less assms(2) by simp
  then have "scale_up a b s0 = scale_up a b (Suc s0)" by (rule scale_up_step)
  also have "\<dots> = s" using Suc(2) less by (intro Suc(1)) simp_all
  finally show ?case .
qed


lemma f32_quot_range:
  assumes "a \<le> b" and "0 < b"
  shows "0 \<le> f32_quot a b \<and> f32_quot a b \<le> 1"
proof (cases "a = 0")
  case True
  then show ?thesis by (simp add: f32_quot_def)
next
  case False
  have small: "\<not> 2 ^ 24 * b \<le> a" using assms by simp
  define s where "s = scale_up a b 0"
  have "a * 2 ^ s \<le> 2 ^ s * b" using assms(1) by (simp add: mult.commute)
  then have "round_half_even (a * 2 ^ s) b \<le> 2 ^ s"
    using assms(2) by (intro round_half_even_le) simp_all
  then have "real (round_half_even (a * 2 ^ s) b) \<le> 2 ^ s"
    by (metis of_nat_le_iff of_nat_numeral of_nat_power)
  then have "real (round_half_even (a * 2 ^ s) b) / 2 ^ s \<le> 1" by simp
  moreover have "0 \<le> real (round_half_even (a * 2 ^ s) b) / 2 ^ s" by simp
  moreover have "f32_quot a b = real (round_half_even (a * 2 ^ s) b) / 2 ^ s"
    using False small by (simp add: f32_quot_def Let_def s_def)
  ultimately show ?thesis by simp
qed



lemma true_divide_counts:
  assumes "a \<le> b" and "0 < b" and "b < 2 ^ 31"
  shows "true_divide fw (int a) (int b) = Finite (f32_quot (f32_of_nat a) (f32_of_nat b))"
proof -
  have pos: "0 < f32_of_nat b" using assms(2) by (rule f32_of_nat_pos)
  have le: "f32_of_nat a \<le> f32_of_nat b" using assms(1) by (rule f32_of_nat_mono)
  have "f32_quot (f32_of_nat a) (f32_of_nat b) \<le> 1"
    using f32_quot_range [OF le pos] by simp
  then have "\<not> 2 ^ 128 \<le> f32_quot (f32_of_nat a) (f32_of_nat b)" by simp
  then show ?thesis
    using assms pos by (simp add: true_divide_def in_int32_def f32_of_int_def f32_div_def Let_def)
qed


lemma true_divide_small:
  assumes "a \<le> b" and "0 < b" and "b < 2 ^ 24"
  shows "true_divide fw (int a) (int b) = Finite (f32_quot a b)"
proof -
  have "a < 2 ^ 24" using assms by simp
  then show ?thesis
    using assms true_divide_counts [of a b fw] by (simp add: f32_of_nat_small)
qed

lemma f32_quot_1_2: "f32_quot 1 2 = 1 / 2"
proof -
  have "scale_up 1 2 0 = 24" by (rule scale_up_found) simp_all
  then show ?thesis by (simp add: f32_quot_def Let_def round_half_even_def)
qed


lemma true_divide_1_2: "true_divide fw 1 2 = Finite (1 / 2)"
proof -
  have "true_divide fw (int 1) (int 2) = Finite (f32_quot 1 2)"
    by (rule true_divide_small) simp_all
  then show ?thesis by (simp only: f32_quot_1_2 of_nat_1 of_nat_numeral)
qed


lemma wrap_int32_1: "wrap_int32 1 = 1"
  by (simp add: wrap_int32_def)

text \<open>Both operands are rounded before the division: \<open>2 ^ 24 + 1\<close> is no float and
  becomes \<open>2 ^ 24\<close>, so the quotient of \<open>2 ^ 24\<close> by \<open>2 ^ 24 + 1\<close> is 1.\<close>

lemma true_divide_rounds_operands: "true_divide fw 16777216 16777217 = Finite 1"
proof -
  have e: "excess_bits 16777217 = 1"
    by (simp add: excess_bits_large excess_bits_small)
  have b: "f32_of_nat 16777217 = 16777216"
    by (simp add: f32_of_nat_def e round_half_even_def Let_def)
  have a: "f32_of_nat 16777216 = 16777216"
    by (simp add: f32_of_nat_def e excess_bits_large excess_bits_small round_half_even_def Let_def)
  have s: "scale_up 16777216 16777216 0 = 23" by (rule scale_up_found) simp_all
  have q: "f32_quot 16777216 16777216 = 1"
    by (simp add: f32_quot_def s Let_def round_half_even_def)
  have "true_divide fw (int 16777216) (int 16777217) =
        Finite (f32_quot (f32_of_nat 16777216) (f32_of_nat 16777217))"
    by (rule true_divide_counts) simp_all
  then show ?thesis by (simp only: a b q of_nat_numeral)
qed

section \<open>The feed-forward part\<close>

text \<open>
  C1. The feed-forward contribution, the first operand of the last addition, is selected by
  \<open>dense_layer\<close>. If it is true, one \<open>MlpBlock\<close> (the dense one) is called, on the
  post-attention normalized hidden states, and its constrained output is the contribution.
  Otherwise the shared \<open>MlpBlock\<close> and the \<open>MoeBlock\<close> are called, both on those same
  hidden states, and the contribution is the constrained sum of their constrained outputs.
\<close>

theorem feed_forward_selected_by_dense_layer:
  "let hs = hidden_states_val fw self inputs seg pos det mode;
       im = intermediate_inputs_val fw self inputs seg pos det mode;
       shared = constrained fw (MlpBlock fw (shared_mlp self) hs det);
       routed = constrained fw (fst (MoeBlock fw (routed_moe fw self) hs));
       ffn = (if dense then constrained fw (MlpBlock fw (dense_mlp self) hs det)
              else constrained fw (jnp_add fw shared routed));
       res = run_layer fw self inputs seg pos det mode dense
   in hs = constrained fw (RMSNorm fw (post_self_attention_layer_norm (config self)) im) \<and>
      mlp_calls (snd res) =
        (if dense then [(dense_mlp self, hs, det)] else [(shared_mlp self, hs, det)]) \<and>
      moe_calls (snd res) = (if dense then [] else [(routed_moe fw self, hs)]) \<and>
      additions (snd res) =
        (inputs_val fw inputs, attention_lnx_val fw self inputs seg pos det mode)
        # (if dense then [] else [(shared, routed)]) @ [(ffn, im)] \<and>
      returned_array (fst res) = constrained fw (jnp_add fw ffn im)"
  by (cases dense; cases "scan_layers (config self)")
     (simp_all add: Let_def run_layer_eq trace_parts hidden_states_val_def
        hidden_states_out_def mlp_lnx_val_def mlp_dense_out_def mlp_sum_out_def
        mlp_shared_out_def mlp_routed_out_def layer_output_val_def layer_output_out_def)

section \<open>The residual connections\<close>

text \<open>
  C2. Both residual connections are there. The array given to the post-attention
  normalization is the (unnormalized) inputs plus the attention output, and the returned
  array is the constrained sum of the feed-forward output and that intermediate. When the
  sharding constraint returns its argument, the returned array is
  \<open>ffn + (inputs + attention)\<close>, where \<open>inputs\<close> is the array that
  \<open>checkpoint_name\<close> returns for the argument (the argument itself when
  \<open>checkpoint_name\<close> returns its argument too); when the addition is commutative this is
  \<open>(inputs + attention) + ffn\<close>.
\<close>

theorem residual_connections:
  "let inp = inputs_val fw inputs;
       att = attention_lnx_val fw self inputs seg pos det mode;
       ffn = mlp_lnx_val fw self inputs seg pos det mode dense;
       res = run_layer fw self inputs seg pos det mode dense
   in map snd (rmsnorm_calls (snd res)) = [inp, jnp_add fw inp att] \<and>
      hd (additions (snd res)) = (inp, att) \<and>
      last (additions (snd res)) = (ffn, jnp_add fw inp att) \<and>
      returned_array (fst res) = constrained fw (jnp_add fw ffn (jnp_add fw inp att)) \<and>
      ((\<forall>x axes. nn_with_logical_constraint fw x axes = x) \<longrightarrow>
         inp = jax_checkpoint_name fw inputs ''decoder_layer_input'' \<and>
         att = attention_out fw self inputs seg pos det mode \<and>
         ffn = (if dense then mlp_dense_out fw self inputs seg pos det mode
                else jnp_add fw (mlp_shared_out fw self inputs seg pos det mode)
                       (mlp_routed_out fw self inputs seg pos det mode)) \<and>
         returned_array (fst res) = jnp_add fw ffn (jnp_add fw inp att) \<and>
         ((\<forall>x name. jax_checkpoint_name fw x name = x) \<longrightarrow> inp = inputs) \<and>
         ((\<forall>x y. jnp_add fw x y = jnp_add fw y x) \<longrightarrow>
            returned_array (fst res) = jnp_add fw (jnp_add fw inp att) ffn))"
  by (cases dense; cases "scan_layers (config self)")
     (simp_all add: Let_def run_layer_eq trace_parts intermediate_inputs_val_def
        layer_output_val_def layer_output_out_def mlp_lnx_val_def mlp_sum_out_def
        attention_lnx_val_def inputs_val_def constrained_def)

theorem residual_connections_witness:
  "(\<forall>x axes. nn_with_logical_constraint example_framework x axes = x) \<and>
   (\<forall>x name. jax_checkpoint_name example_framework x name = x) \<and>
   (\<forall>x y. jnp_add example_framework x y = jnp_add example_framework y x) \<and>
   inputs_val example_framework [1, 0] = [1, 0] \<and>
   attention_out example_framework example_layer [1, 0] 0 0 True ''train'' = [3, 1] \<and>
   mlp_dense_out example_framework example_layer [1, 0] 0 0 True ''train'' = [- 4, 2] \<and>
   returned_array (fst (example_run True)) = [0, 3]"
  using residual_connections [of example_framework "[1, 0]" example_layer 0 0 True "''train''" True]
    map2_add_commute
  by (simp add: Let_def example_run_def example_framework_def value_defs)

section \<open>Normalization\<close>

text \<open>
  C3. Normalization is pre-normalization. \<open>RMSNorm\<close> is called twice, both times with
  \<open>epsilon = cfg.normalization_layer_epsilon\<close>: on the inputs, before the attention,
  and on the post-attention intermediate, before the feed-forward blocks. The two residual
  additions take the unnormalized arrays (the inputs and the intermediate). The last
  computation is the final addition: no normalization follows it, the returned array is its
  constrained result.
\<close>

theorem normalization_is_pre_normalization:
  "let cfg = config self;
       inp = inputs_val fw inputs;
       lnx = lnx_val fw self inputs;
       att = attention_lnx_val fw self inputs seg pos det mode;
       im = intermediate_inputs_val fw self inputs seg pos det mode;
       hs = hidden_states_val fw self inputs seg pos det mode;
       ffn = mlp_lnx_val fw self inputs seg pos det mode dense;
       res = run_layer fw self inputs seg pos det mode dense
   in rmsnorm_calls (snd res) =
        [(pre_self_attention_layer_norm cfg, inp), (post_self_attention_layer_norm cfg, im)] \<and>
      map (\<lambda>(a, x). (rms_name a, rms_epsilon a)) (rmsnorm_calls (snd res)) =
        [(''pre_self_attention_layer_norm'', normalization_layer_epsilon cfg),
         (''post_self_attention_layer_norm'', normalization_layer_epsilon cfg)] \<and>
      lnx = constrained fw (RMSNorm fw (pre_self_attention_layer_norm cfg) inp) \<and>
      im = jnp_add fw inp att \<and>
      hs = constrained fw (RMSNorm fw (post_self_attention_layer_norm cfg) im) \<and>
      computations (snd res) =
        [CallRMSNorm (pre_self_attention_layer_norm cfg) inp,
         CallMLA (self_attention fw self) lnx lnx pos seg det mode,
         Add inp att,
         CallRMSNorm (post_self_attention_layer_norm cfg) im]
        @ (if dense then [CallMlpBlock (dense_mlp self) hs det]
           else [CallMlpBlock (shared_mlp self) hs det,
                 CallMoeBlock (routed_moe fw self) hs,
                 Add (constrained fw (mlp_shared_out fw self inputs seg pos det mode))
                   (constrained fw (mlp_routed_out fw self inputs seg pos det mode))])
        @ [Add ffn im] \<and>
      returned_array (fst res) = constrained fw (jnp_add fw ffn im)"
  by (cases dense; cases "scan_layers (config self)")
     (simp_all add: Let_def run_layer_eq trace_parts computations_def lnx_val_def lnx_out_def
        intermediate_inputs_val_def hidden_states_val_def hidden_states_out_def
        layer_output_val_def layer_output_out_def pre_self_attention_layer_norm_def
        post_self_attention_layer_norm_def)

section \<open>The attention block\<close>

text \<open>
  C4. The attention block (\<open>Attention = attentions.MLA\<close> in the source) is called once,
  as self-attention: the pre-normalized, constrained array \<open>lnx\<close> is both of its array
  inputs, followed by \<open>decoder_positions\<close>, \<open>decoder_segment_ids\<close>,
  \<open>deterministic\<close> and \<open>model_mode\<close>. Its constrained output is what the first
  residual addition adds to the inputs.
\<close>

theorem attention_is_self_attention:
  "let lnx = lnx_val fw self inputs;
       res = run_layer fw self inputs seg pos det mode dense
   in mla_calls (snd res) = [(self_attention fw self, lnx, lnx, pos, seg, det, mode)] \<and>
      mla_name (self_attention fw self) = ''self_attention'' \<and>
      lnx = constrained fw
              (RMSNorm fw (pre_self_attention_layer_norm (config self)) (inputs_val fw inputs)) \<and>
      hd (additions (snd res)) =
        (inputs_val fw inputs,
         constrained fw (Attention fw (self_attention fw self) lnx lnx pos seg det mode))"
  by (cases dense; cases "scan_layers (config self)")
     (simp_all add: Let_def run_layer_eq trace_parts lnx_val_def lnx_out_def
        attention_lnx_val_def attention_out_def self_attention_def)

section \<open>The recorded metrics\<close>

text \<open>
  C5. The layer sows exactly when \<open>cfg.record_internal_nn_metrics\<close> is set, and then
  three values, \<open>activation_mean\<close>, \<open>activation_stdev\<close> and
  \<open>activation_fraction_zero\<close>, each computed from the final layer output. The returned
  value is the layer output, in the form that \<open>cfg.scan_layers\<close> selects, whether or not
  anything was sown; and setting the flag to any value \<open>b\<close> leaves the returned value
  as it is, provided the submodules, which receive the configuration, do not react to the
  flag themselves.
\<close>

theorem metrics_are_optional:
  "let lo = layer_output_val fw self inputs seg pos det mode dense;
       res = run_layer fw self inputs seg pos det mode dense;
       self' = self\<lparr>config := (config self)\<lparr>record_internal_nn_metrics := b\<rparr>\<rparr>
   in sown (snd res) =
        (if record_internal_nn_metrics (config self)
         then [(''intermediates'', ''activation_mean'', jnp_mean fw lo),
               (''intermediates'', ''activation_stdev'', jnp_std fw lo),
               (''intermediates'', ''activation_fraction_zero'',
                true_divide fw (jnp_sum (jnp_eq_zero fw lo)) (jnp_size lo))]
         else []) \<and>
      fst res = (if scan_layers (config self) then WithNone lo else Alone lo) \<and>
      (collaborators_agree fw self self' \<longrightarrow>
         fst (run_layer fw self' inputs seg pos det mode dense) = fst res)"
proof -
  let ?self' = "self\<lparr>config := (config self)\<lparr>record_internal_nn_metrics := b\<rparr>\<rparr>"
  have same: "layer_output_val fw ?self' inputs seg pos det mode dense =
              layer_output_val fw self inputs seg pos det mode dense"
    if "collaborators_agree fw self ?self'"
    using that
    by (rule layer_output_val_agree)
       (simp_all add: pre_self_attention_layer_norm_def post_self_attention_layer_norm_def)
  have tr: "sown (snd (run_layer fw self inputs seg pos det mode dense)) =
        (if record_internal_nn_metrics (config self)
         then sown (sown_metrics fw (layer_output_val fw self inputs seg pos det mode dense))
         else [])"
    by (cases dense) (simp_all add: run_layer_eq attention_part_def feed_forward_part_def
          output_part_def)
  show ?thesis
    using same by (simp add: Let_def tr sown_metrics_def) (simp add: run_layer_eq)
qed

theorem metrics_are_optional_witness:
  "collaborators_agree example_framework example_layer
     (example_layer\<lparr>config := (config example_layer)\<lparr>record_internal_nn_metrics := False\<rparr>\<rparr>) \<and>
   record_internal_nn_metrics (config example_layer) \<and>
   sown (snd (example_run True)) =
     [(''intermediates'', ''activation_mean'', NaN),
      (''intermediates'', ''activation_stdev'', NaN),
      (''intermediates'', ''activation_fraction_zero'', Finite (1 / 2))] \<and>
   fst (example_run True) = Alone [0, 3] \<and>
   fst (run_layer example_framework
          (example_layer\<lparr>config := (config example_layer)\<lparr>record_internal_nn_metrics := False\<rparr>\<rparr>)
          [1, 0] 0 0 True ''train'' True) = Alone [0, 3]"
  using metrics_are_optional [of example_framework example_layer "[1, 0]" 0 0 True "''train''" True False]
    example_agree
  by (simp add: Let_def example_run_def example_layer_def example_config_def value_defs
      example_framework_def jnp_eq_zero_def jnp_sum_def jnp_size_def wrap_int32_1
      true_divide_1_2)




section \<open>The sharding constraints\<close>

text \<open>
  C6, as stated, says that every intermediate activation produced in \<open>__call__\<close> is
  wrapped in a sharding constraint. The post-attention residual sum
  \<open>intermediate_inputs = inputs + attention_lnx\<close> is not: it goes to the second
  normalization and to the final addition as it is. On the small instance it is the array
  \<open>[4, 1]\<close>, which an addition of the trace returns and no constraint of the trace
  receives, in either branch.
\<close>

theorem intermediate_inputs_not_constrained:
  "intermediate_inputs_val example_framework example_layer [1, 0] 0 0 True ''train'' = [4, 1] \<and>
   [4, 1] \<in> set (produced example_framework (snd (example_run True))) \<and>
   [4, 1] \<notin> set (map fst (constraints (snd (example_run True)))) \<and>
   [4, 1] \<in> set (produced example_framework (snd (example_run False))) \<and>
   [4, 1] \<notin> set (map fst (constraints (snd (example_run False))))"
  by (simp add: example_run_def run_layer_eq trace_parts value_defs example_framework_def)

text \<open>
  C6, amended. The inputs, the pre-attention normalized array, the attention output, the
  post-attention normalized hidden states, each feed-forward output (the dense one, or the
  shared one, the routed one and their sum) and the final sum are each given to
  \<open>nn.with_logical_constraint\<close>, in this order and in both branches, always with the axis
  names \<open>("activation_batch", "activation_norm_length", "activation_embed")\<close>; these are
  all the constraints of a call. The arrays that the collaborators and the additions return
  are those same arrays, without the inputs, and the post-attention residual sum
  \<open>intermediate_inputs\<close>, which is not given to a constraint.
\<close>

theorem sharding_constraints:
  "let res = run_layer fw self inputs seg pos det mode dense;
       ffn_outs = (if dense then [mlp_dense_out fw self inputs seg pos det mode]
                   else [mlp_shared_out fw self inputs seg pos det mode,
                         mlp_routed_out fw self inputs seg pos det mode,
                         mlp_sum_out fw self inputs seg pos det mode])
   in constraints (snd res) =
        map (\<lambda>x. (x, [''activation_batch'', ''activation_norm_length'', ''activation_embed'']))
          ([inputs, lnx_out fw self inputs, attention_out fw self inputs seg pos det mode,
            hidden_states_out fw self inputs seg pos det mode]
           @ ffn_outs @ [layer_output_out fw self inputs seg pos det mode dense]) \<and>
      produced fw (snd res) =
        [lnx_out fw self inputs, attention_out fw self inputs seg pos det mode,
         intermediate_inputs_val fw self inputs seg pos det mode,
         hidden_states_out fw self inputs seg pos det mode]
        @ ffn_outs @ [layer_output_out fw self inputs seg pos det mode dense]"
  by (cases dense; cases "record_internal_nn_metrics (config self)")
     (simp_all add: Let_def run_layer_eq trace_parts activation_axes_def lnx_out_def
        attention_out_def intermediate_inputs_val_def hidden_states_out_def mlp_dense_out_def
        mlp_shared_out_def mlp_routed_out_def mlp_sum_out_def layer_output_out_def)

section \<open>The returned value\<close>

text \<open>
  C7. The form of the returned value follows \<open>cfg.scan_layers\<close> alone: the pair
  \<open>(layer_output, None)\<close> when it is set, \<open>layer_output\<close> otherwise. The array is
  the final layer output in both forms; setting \<open>scan_layers\<close> to any value \<open>b\<close>
  changes the form and not the array, provided the submodules, which receive the
  configuration, do not react to the flag themselves.
\<close>

theorem return_form_follows_scan_layers:
  "let lo = layer_output_val fw self inputs seg pos det mode dense;
       res = fst (run_layer fw self inputs seg pos det mode dense);
       self' = self\<lparr>config := (config self)\<lparr>scan_layers := b\<rparr>\<rparr>
   in res = (if scan_layers (config self) then WithNone lo else Alone lo) \<and>
      is_pair res = scan_layers (config self) \<and>
      returned_array res = lo \<and>
      (collaborators_agree fw self self' \<longrightarrow>
         fst (run_layer fw self' inputs seg pos det mode dense) =
           (if b then WithNone lo else Alone lo))"
proof -
  let ?self' = "self\<lparr>config := (config self)\<lparr>scan_layers := b\<rparr>\<rparr>"
  have same: "layer_output_val fw ?self' inputs seg pos det mode dense =
              layer_output_val fw self inputs seg pos det mode dense"
    if "collaborators_agree fw self ?self'"
    using that
    by (rule layer_output_val_agree)
       (simp_all add: pre_self_attention_layer_norm_def post_self_attention_layer_norm_def)
  show ?thesis
    using same by (simp add: Let_def run_layer_eq)
qed

theorem return_form_follows_scan_layers_witness:
  "collaborators_agree example_framework example_layer
     (example_layer\<lparr>config := (config example_layer)\<lparr>scan_layers := True\<rparr>\<rparr>) \<and>
   \<not> scan_layers (config example_layer) \<and>
   fst (example_run False) = Alone [- 8, 1] \<and>
   fst (run_layer example_framework
          (example_layer\<lparr>config := (config example_layer)\<lparr>scan_layers := True\<rparr>\<rparr>)
          [1, 0] 0 0 True ''train'' False) = WithNone [- 8, 1]"
  using return_form_follows_scan_layers
      [of example_framework example_layer "[1, 0]" 0 0 True "''train''" False True]
    example_agree
  by (simp add: Let_def example_run_def example_layer_def example_config_def value_defs
      example_framework_def)

section \<open>The feed-forward widths\<close>

text \<open>
  C8. The \<open>MlpBlock\<close> of the dense branch is built with
  \<open>intermediate_dim = cfg.mlp_dim * (cfg.num_experts_per_tok + cfg.num_shared_experts)\<close>,
  the shared \<open>MlpBlock\<close> of the mixture branch with
  \<open>cfg.mlp_dim * cfg.num_shared_experts\<close>; in integers, the dense width is the shared
  width plus \<open>cfg.mlp_dim\<close> for each of the \<open>cfg.num_experts_per_tok\<close> routed experts
  that the \<open>MoeBlock\<close> is told to use per token.
\<close>

theorem feed_forward_widths:
  "let cfg = config self;
       res = run_layer fw self inputs seg pos det mode dense
   in map (\<lambda>(a, x, d). mlp_intermediate_dim a) (mlp_calls (snd res)) =
        [if dense then mlp_dim cfg * (num_experts_per_tok cfg + num_shared_experts cfg)
         else mlp_dim cfg * num_shared_experts cfg] \<and>
      mlp_intermediate_dim (dense_mlp self) =
        mlp_dim cfg * (num_experts_per_tok cfg + num_shared_experts cfg) \<and>
      mlp_intermediate_dim (shared_mlp self) = mlp_dim cfg * num_shared_experts cfg \<and>
      mlp_intermediate_dim (dense_mlp self) =
        mlp_intermediate_dim (shared_mlp self) + mlp_dim cfg * num_experts_per_tok cfg \<and>
      map (\<lambda>(a, x). moe_num_experts_per_tok a) (moe_calls (snd res)) =
        (if dense then [] else [num_experts_per_tok cfg])"
  by (cases dense)
     (simp_all add: Let_def run_layer_eq trace_parts dense_mlp_def shared_mlp_def
        mlp_with_dim_def routed_moe_def distrib_left)

end
